theory Spec2Isabelle
  imports Main "HOL-Library.Char_ord" "HOL-Library.List_Lexorder"
begin

section \<open>Library functions the package calls\<close>

text \<open>
  Go strings are byte sequences; they are modelled as \<^typ>\<open>string\<close>. The functions of
  the standard packages \<^verbatim>\<open>strings\<close> and \<^verbatim>\<open>strconv\<close> that the package calls are
  written out here for the arguments the package passes (a one-byte separator, the
  replacement of CR LF by LF).
\<close>

subsection \<open>The int type and strconv.Atoi\<close>

datatype arch = Int32 | Int64

fun IntSize :: "arch \<Rightarrow> nat" where
  "IntSize Int32 = 32"
| "IntSize Int64 = 64"

definition maxInt :: "arch \<Rightarrow> int" where
  "maxInt a = 2 ^ (IntSize a - 1) - 1"

definition minInt :: "arch \<Rightarrow> int" where
  "minInt a = - (2 ^ (IntSize a - 1))"

text \<open>Arithmetic on \<^verbatim>\<open>int\<close> wraps around in two's complement.\<close>

definition wrap :: "arch \<Rightarrow> int \<Rightarrow> int" where
  "wrap a x = (x - minInt a) mod 2 ^ IntSize a + minInt a"

datatype NumError = EINVAL | ERANGE

definition isDigit :: "char \<Rightarrow> bool" where
  "isDigit c = (48 \<le> (of_char c :: nat) \<and> (of_char c :: nat) \<le> 57)"

definition digitVal :: "char \<Rightarrow> nat" where
  "digitVal c = of_char c - 48"

fun digits_val :: "nat \<Rightarrow> string \<Rightarrow> nat option" where
  "digits_val n [] = Some n"
| "digits_val n (c # cs) =
     (if isDigit c then digits_val (10 * n + digitVal c) cs else None)"

text \<open>
  \<^verbatim>\<open>Atoi\<close> returns a value and an error: an optional sign, then at least one decimal
  digit, anything else is \<^verbatim>\<open>EINVAL\<close> with value 0; a number outside the range of
  \<^verbatim>\<open>int\<close> is \<^verbatim>\<open>ERANGE\<close> with the nearest bound as value.
\<close>

definition Atoi :: "arch \<Rightarrow> string \<Rightarrow> int \<times> NumError option" where
  "Atoi a s =
     (if s = [] then (0, Some EINVAL)
      else
        let neg = (hd s = CHR ''-'');
            s1 = (if hd s = CHR ''+'' \<or> hd s = CHR ''-'' then tl s else s)
        in if s1 = [] then (0, Some EINVAL)
           else case digits_val 0 s1 of
             None \<Rightarrow> (0, Some EINVAL)
           | Some un \<Rightarrow>
               let v = (if neg then - int un else int un)
               in if v < minInt a then (minInt a, Some ERANGE)
                  else if maxInt a < v then (maxInt a, Some ERANGE)
                  else (v, None))"

subsection \<open>Package strings\<close>

fun Split :: "string \<Rightarrow> char \<Rightarrow> string list" where
  "Split [] sep = [[]]"
| "Split (c # cs) sep =
     (if c = sep then [] # Split cs sep
      else case Split cs sep of
             [] \<Rightarrow> [[c]]
           | p # ps \<Rightarrow> (c # p) # ps)"

fun Join :: "string list \<Rightarrow> string \<Rightarrow> string" where
  "Join [] sep = []"
| "Join [x] sep = x"
| "Join (x # y # ys) sep = x @ sep @ Join (y # ys) sep"

fun Index :: "string \<Rightarrow> char \<Rightarrow> int" where
  "Index [] c = - 1"
| "Index (x # xs) c =
     (if x = c then 0 else let i = Index xs c in if i < 0 then - 1 else i + 1)"

fun IndexAny :: "string \<Rightarrow> string \<Rightarrow> int" where
  "IndexAny [] chars = - 1"
| "IndexAny (x # xs) chars =
     (if x \<in> set chars then 0
      else let i = IndexAny xs chars in if i < 0 then - 1 else i + 1)"

definition Contains :: "string \<Rightarrow> char \<Rightarrow> bool" where
  "Contains s c = (0 \<le> Index s c)"

text \<open>
  \<^verbatim>\<open>TrimSpace\<close> removes the leading and the trailing white space code points of the
  UTF-8 text: the six of ASCII, U+0085 and U+00A0 (two bytes), and U+1680, U+2000 to
  U+200A, U+2028, U+2029, U+202F, U+205F and U+3000 (three bytes). A byte that does not
  begin such an encoding is not white space. The trailing ones are found on the reversed
  text, where the bytes of an encoding come in reverse.
\<close>

definition asciiSpace :: "char \<Rightarrow> bool" where
  "asciiSpace c = (c \<in> set [CHR 0x09, CHR 0x0A, CHR 0x0B, CHR 0x0C, CHR 0x0D, CHR 0x20])"

definition space2 :: "char \<Rightarrow> char \<Rightarrow> bool" where
  "space2 c d = (c = CHR 0xC2 \<and> (d = CHR 0x85 \<or> d = CHR 0xA0))"

definition space3 :: "char \<Rightarrow> char \<Rightarrow> char \<Rightarrow> bool" where
  "space3 c d e =
     (c = CHR 0xE1 \<and> d = CHR 0x9A \<and> e = CHR 0x80 \<or>
      c = CHR 0xE2 \<and> d = CHR 0x80 \<and>
        (e \<in> set [CHR 0x80, CHR 0x81, CHR 0x82, CHR 0x83, CHR 0x84, CHR 0x85, CHR 0x86,
                   CHR 0x87, CHR 0x88, CHR 0x89, CHR 0x8A, CHR 0xA8, CHR 0xA9, CHR 0xAF]) \<or>
      c = CHR 0xE2 \<and> d = CHR 0x81 \<and> e = CHR 0x9F \<or>
      c = CHR 0xE3 \<and> d = CHR 0x80 \<and> e = CHR 0x80)"

fun trim :: "(char \<Rightarrow> char \<Rightarrow> bool) \<Rightarrow> (char \<Rightarrow> char \<Rightarrow> char \<Rightarrow> bool) \<Rightarrow> string \<Rightarrow> string" where
  "trim two three (c # d # e # s) =
     (if asciiSpace c then trim two three (d # e # s)
      else if two c d then trim two three (e # s)
      else if three c d e then trim two three s
      else c # d # e # s)"
| "trim two three [c, d] =
     (if asciiSpace c then trim two three [d] else if two c d then [] else [c, d])"
| "trim two three [c] = (if asciiSpace c then [] else [c])"
| "trim two three [] = []"

definition TrimLeft :: "string \<Rightarrow> string" where
  "TrimLeft s = trim space2 space3 s"

definition TrimRight :: "string \<Rightarrow> string" where
  "TrimRight s = rev (trim (\<lambda>c d. space2 d c) (\<lambda>c d e. space3 e d c) (rev s))"

definition TrimSpace :: "string \<Rightarrow> string" where
  "TrimSpace s = TrimRight (TrimLeft s)"

text \<open>\<^verbatim>\<open>strings.Replace(s, "\r\n", "\n", -1)\<close>\<close>

fun ReplaceCRLF :: "string \<Rightarrow> string" where
  "ReplaceCRLF (c # d # s) =
     (if c = CHR 0x0D \<and> d = CHR 0x0A then CHR 0x0A # ReplaceCRLF s
      else c # ReplaceCRLF (d # s))"
| "ReplaceCRLF s = s"

section \<open>Files and the operating system\<close>

text \<open>
  An \<^verbatim>\<open>*os.File\<close> is one of the two standard streams or a descriptor obtained from
  \<^verbatim>\<open>os.Open\<close> or \<^verbatim>\<open>os.Create\<close>; the nil pointer is \<^term>\<open>None\<close>.
\<close>

datatype File = Stdin | Stdout | Fd nat

record fileValue =
  fv_f :: "File option"
  fv_name :: string
  fv_in :: bool
  fv_std :: bool

text \<open>
  The state of the process: the files that can be opened for reading, with their
  contents; the paths that can be created; the next free descriptor; the handles that a
  \<^verbatim>\<open>Close\<close> call reached, in order; and the store of the \<^verbatim>\<open>fileValue\<close> objects that
  the facade and the registry share by pointer (a pointer is an address of the store,
  \<open>nheap\<close> the next free one).
\<close>

record state =
  files :: "string \<rightharpoonup> string"
  creatable :: "string \<Rightarrow> bool"
  nfd :: nat
  closed :: "File list"
  heap :: "nat \<Rightarrow> fileValue"
  nheap :: nat

definition os_Open :: "state \<Rightarrow> string \<Rightarrow> (state \<times> File) option" where
  "os_Open st name =
     (case files st name of
        None \<Rightarrow> None
      | Some _ \<Rightarrow> Some (st\<lparr>nfd := nfd st + 1\<rparr>, Fd (nfd st)))"

definition os_Create :: "state \<Rightarrow> string \<Rightarrow> (state \<times> File) option" where
  "os_Create st name =
     (if creatable st name
      then Some (st\<lparr>files := (files st)(name \<mapsto> []), nfd := nfd st + 1\<rparr>, Fd (nfd st))
      else None)"

text \<open>\<^verbatim>\<open>(*os.File).Close\<close>: on the nil pointer it returns an error and does nothing.\<close>

definition File_Close :: "state \<Rightarrow> File option \<Rightarrow> state" where
  "File_Close st f =
     (case f of None \<Rightarrow> st | Some h \<Rightarrow> st\<lparr>closed := closed st @ [h]\<rparr>)"

section \<open>fileValue\<close>

definition fileValue_String :: "fileValue \<Rightarrow> string" where
  "fileValue_String this = fv_name this"

definition fileValue_Set :: "state \<Rightarrow> fileValue \<Rightarrow> string \<Rightarrow> state \<times> fileValue \<times> bool" where
  "fileValue_Set st this name =
     (if length name = 0 then (st, this, False)
      else if name = ''stdin'' then (st, this\<lparr>fv_name := name, fv_f := Some Stdin\<rparr>, True)
      else if name = ''stdout'' then (st, this\<lparr>fv_name := name, fv_f := Some Stdout\<rparr>, True)
      else
        let this1 = this\<lparr>fv_std := False\<rparr>
        in case (if fv_in this1 then os_Open st name else os_Create st name) of
             None \<Rightarrow> (st, this1, False)
           | Some (st1, h) \<Rightarrow> (st1, this1\<lparr>fv_name := name, fv_f := Some h\<rparr>, True))"

definition fileValue_Close :: "state \<Rightarrow> fileValue \<Rightarrow> state" where
  "fileValue_Close st this =
     (if \<not> fv_std this then File_Close st (fv_f this) else st)"

definition newFileValue :: "string \<Rightarrow> bool \<Rightarrow> fileValue" where
  "newFileValue name inp = \<lparr>fv_f = None, fv_name = name, fv_in = inp, fv_std = True\<rparr>"

section \<open>Value lists\<close>

text \<open>
  \<^verbatim>\<open>ValueList.Set\<close> calls the converter of the value through the \<^verbatim>\<open>Converter\<close>
  interface; here the converter is a function from the value's state and a part to the
  new state and the result of \<^verbatim>\<open>Convert\<close>.
\<close>

record ValueList =
  vl_name :: string

fun Set_loop :: "('s \<Rightarrow> string \<Rightarrow> 's \<times> bool) \<Rightarrow> 's \<Rightarrow> string list \<Rightarrow> 's \<times> bool" where
  "Set_loop Convert s [] = (s, True)"
| "Set_loop Convert s (v # values) =
     (case Convert s v of
        (s1, ok) \<Rightarrow> if \<not> ok then (s1, False) else Set_loop Convert s1 values)"

definition ValueList_Set :: "('s \<Rightarrow> string \<Rightarrow> 's \<times> bool) \<Rightarrow> 's \<Rightarrow> string \<Rightarrow> 's \<times> bool" where
  "ValueList_Set Convert s val = Set_loop Convert s (Split val CHR '','')"

record filesValue = ValueList +
  names :: "string list"

record intsValue = ValueList +
  ints :: "int list"

record stringsValue = ValueList +
  strings :: "string list"

definition makeValueList :: "string \<Rightarrow> ValueList" where
  "makeValueList def = \<lparr>vl_name = def\<rparr>"

definition filesValue_Convert ::
  "state \<times> filesValue \<Rightarrow> string \<Rightarrow> (state \<times> filesValue) \<times> bool" where
  "filesValue_Convert s v =
     (case s of (st, this) \<Rightarrow>
        let file = newFileValue v True
        in case fileValue_Set st file v of
             (st1, file1, ok) \<Rightarrow>
               if \<not> ok then ((st1, this), False)
               else
                 let st2 = fileValue_Close st1 file1
                 in ((st2, this\<lparr>names := names this @ [fv_name file1]\<rparr>), True))"

definition intsValue_Convert :: "arch \<Rightarrow> intsValue \<Rightarrow> string \<Rightarrow> intsValue \<times> bool" where
  "intsValue_Convert a this v =
     (case Atoi a v of
        (i, Some e) \<Rightarrow> (this, False)
      | (i, None) \<Rightarrow> (this\<lparr>ints := ints this @ [i]\<rparr>, True))"

definition stringsValue_Convert :: "stringsValue \<Rightarrow> string \<Rightarrow> stringsValue \<times> bool" where
  "stringsValue_Convert this v = (this\<lparr>strings := strings this @ [v]\<rparr>, True)"

text \<open>
  The converter wrapped so that it also records the parts it is called with: the log
  shows which \<^verbatim>\<open>Convert\<close> calls \<^verbatim>\<open>Set\<close> makes, and in which order.
\<close>

definition traced ::
  "('s \<Rightarrow> string \<Rightarrow> 's \<times> bool) \<Rightarrow> 's \<times> string list \<Rightarrow> string \<Rightarrow> ('s \<times> string list) \<times> bool" where
  "traced Convert s v =
     (case s of (x, log) \<Rightarrow>
        case Convert x v of (x1, ok) \<Rightarrow> ((x1, log @ [v]), ok))"

text \<open>The state after converting the parts \<open>vs\<close>, one after the other.\<close>

definition converted :: "('s \<Rightarrow> string \<Rightarrow> 's \<times> bool) \<Rightarrow> 's \<Rightarrow> string list \<Rightarrow> 's" where
  "converted Convert s vs = fold (\<lambda>v x. fst (Convert x v)) vs s"

section \<open>The flag registry\<close>

text \<open>
  The package extends \<^verbatim>\<open>flag.FlagSet\<close> of the standard library. Its part that the
  package relies on is modelled here: a flag has a name, a usage string, a value and the
  default value as a string; \<^verbatim>\<open>Parse\<close> consumes \<^verbatim>\<open>-name=value\<close> and \<^verbatim>\<open>-name value\<close>
  (one or two hyphens), stops at the first argument that is not a flag or after
  \<^verbatim>\<open>--\<close>, and, the set being created with \<^verbatim>\<open>ExitOnError\<close>, leaves the process with
  status 2 on any error. The values are those of \<^verbatim>\<open>String\<close> and \<^verbatim>\<open>Int\<close> and the four
  kinds that the package adds; boolean flags, which take no argument, are not modelled.
  Every flag owns its value, except that a \<^verbatim>\<open>*fileValue\<close> is a pointer into the store.
  The registry is a map from the names to the flags; it is the list of the flags in the
  order of their names, the order in which \<^verbatim>\<open>VisitAll\<close> visits them. The \<^verbatim>\<open>Int\<close>
  value parses its argument with a function of \<^verbatim>\<open>strconv\<close> in base 0, which is a
  parameter \<open>ParseInt\<close> of the model: it returns the value and whether it is valid.
\<close>

datatype error = Panic | Exit nat

datatype Value =
    StringV string
  | IntV int
  | FileV nat
  | FilesV filesValue
  | IntsV intsValue
  | StringsV stringsValue

record Flag =
  Name :: string
  Usage :: string
  Value :: Value
  DefValue :: string

text \<open>The type assertion \<^verbatim>\<open>flag.Value.(ListValue)\<close>: the values that embed \<^verbatim>\<open>ValueList\<close>.\<close>

fun isListValue :: "Value \<Rightarrow> bool" where
  "isListValue (FilesV l) = True"
| "isListValue (IntsV l) = True"
| "isListValue (StringsV l) = True"
| "isListValue v = False"

function uitoa :: "nat \<Rightarrow> string" where
  "uitoa n =
     (if n < 10 then [''0123456789'' ! n]
      else uitoa (n div 10) @ [''0123456789'' ! (n mod 10)])"
  by pat_completeness auto
termination
  by (relation "measure id") auto

declare uitoa.simps [simp del]

definition Itoa :: "int \<Rightarrow> string" where
  "Itoa i = (if i < 0 then CHR ''-'' # uitoa (nat (- i)) else uitoa (nat i))"

definition Value_String :: "state \<Rightarrow> Value \<Rightarrow> string" where
  "Value_String st v =
     (case v of
        StringV s \<Rightarrow> s
      | IntV i \<Rightarrow> Itoa i
      | FileV p \<Rightarrow> fileValue_String (heap st p)
      | FilesV l \<Rightarrow> vl_name l
      | IntsV l \<Rightarrow> vl_name l
      | StringsV l \<Rightarrow> vl_name l)"

definition Value_Set ::
  "(string \<Rightarrow> int \<times> bool) \<Rightarrow> arch \<Rightarrow> state \<Rightarrow> Value \<Rightarrow> string \<Rightarrow> state \<times> Value \<times> bool" where
  "Value_Set ParseInt a st v s =
     (case v of
        StringV _ \<Rightarrow> (st, StringV s, True)
      | IntV _ \<Rightarrow> (case ParseInt s of (i, ok) \<Rightarrow> (st, IntV i, ok))
      | FileV p \<Rightarrow>
          (case fileValue_Set st (heap st p) s of
             (st1, this1, ok) \<Rightarrow> (st1\<lparr>heap := (heap st1)(p := this1)\<rparr>, FileV p, ok))
      | FilesV l \<Rightarrow>
          (case ValueList_Set filesValue_Convert (st, l) s of
             ((st1, l1), ok) \<Rightarrow> (st1, FilesV l1, ok))
      | IntsV l \<Rightarrow>
          (case ValueList_Set (intsValue_Convert a) l s of
             (l1, ok) \<Rightarrow> (st, IntsV l1, ok))
      | StringsV l \<Rightarrow>
          (case ValueList_Set stringsValue_Convert l s of
             (l1, ok) \<Rightarrow> (st, StringsV l1, ok)))"

fun lookup :: "Flag list \<Rightarrow> string \<Rightarrow> nat option" where
  "lookup [] name = None"
| "lookup (fl # fls) name =
     (if Name fl = name then Some 0 else map_option Suc (lookup fls name))"

definition flag_Set ::
  "(string \<Rightarrow> int \<times> bool) \<Rightarrow> arch \<Rightarrow> state \<Rightarrow> Flag list \<Rightarrow> nat \<Rightarrow> string
     \<Rightarrow> (state \<times> Flag list) option" where
  "flag_Set ParseInt a st formal i val =
     (case Value_Set ParseInt a st (Value (formal ! i)) val of
        (st1, v1, ok) \<Rightarrow>
          if ok then Some (st1, formal[i := (formal ! i)\<lparr>Value := v1\<rparr>]) else None)"

datatype arg_kind = NotFlag | Terminator | BadSyntax | IsFlag string bool string

definition scanArg :: "string \<Rightarrow> arg_kind" where
  "scanArg s =
     (if length s = 0 \<or> hd s \<noteq> CHR ''-'' \<or> length s = 1 then NotFlag
      else
        let num_minuses = (if s ! 1 = CHR ''-'' then 2 else 1 :: nat)
        in if num_minuses = 2 \<and> length s = 2 then Terminator
           else
             let name = drop num_minuses s
             in if length name = 0 \<or> hd name = CHR ''-'' \<or> hd name = CHR ''=''
                then BadSyntax
                else
                  let rest = dropWhile (\<lambda>c. c \<noteq> CHR ''='') (tl name)
                  in if rest = [] then IsFlag name False []
                     else IsFlag (hd name # takeWhile (\<lambda>c. c \<noteq> CHR ''='') (tl name))
                            True (tl rest))"

fun FlagSet_Parse ::
  "(string \<Rightarrow> int \<times> bool) \<Rightarrow> arch \<Rightarrow> state \<Rightarrow> Flag list \<Rightarrow> string list
     \<Rightarrow> error + (state \<times> Flag list \<times> string list)" where
  "FlagSet_Parse ParseInt a st formal [] = Inr (st, formal, [])"
| "FlagSet_Parse ParseInt a st formal (s # args) =
     (case scanArg s of
        NotFlag \<Rightarrow> Inr (st, formal, s # args)
      | Terminator \<Rightarrow> Inr (st, formal, args)
      | BadSyntax \<Rightarrow> Inl (Exit 2)
      | IsFlag name has_value val \<Rightarrow>
          (case lookup formal name of
             None \<Rightarrow> Inl (Exit 2)
           | Some i \<Rightarrow>
               if has_value
               then (case flag_Set ParseInt a st formal i val of
                       None \<Rightarrow> Inl (Exit 2)
                     | Some (st1, formal1) \<Rightarrow> FlagSet_Parse ParseInt a st1 formal1 args)
               else (case args of
                       [] \<Rightarrow> Inl (Exit 2)
                     | v # args1 \<Rightarrow>
                         (case flag_Set ParseInt a st formal i v of
                            None \<Rightarrow> Inl (Exit 2)
                          | Some (st1, formal1) \<Rightarrow> FlagSet_Parse ParseInt a st1 formal1 args1))))"

section \<open>FlagExtra\<close>

record FlagExtra =
  formal :: "Flag list"
  args :: "string list"
  Files :: "nat list"

definition NewFlag :: FlagExtra where
  "NewFlag = \<lparr>formal = [], args = [], Files = []\<rparr>"

definition addFile :: "FlagExtra \<Rightarrow> nat \<Rightarrow> FlagExtra" where
  "addFile fx f = fx\<lparr>Files := Files fx @ [f]\<rparr>"

definition FlagExtra_Close :: "state \<Rightarrow> FlagExtra \<Rightarrow> state" where
  "FlagExtra_Close st fx = fold (\<lambda>f st1. fileValue_Close st1 (heap st1 f)) (Files fx) st"

subsection \<open>glob\<close>

text \<open>
  \<^verbatim>\<open>filepath.Glob\<close> reads the file system; it is a parameter \<open>Glob\<close> of the model, the
  list of paths it returns for a pattern (none when the pattern is malformed: the
  package drops the error).
\<close>

fun glob_loop :: "(string \<Rightarrow> string list) \<Rightarrow> string list \<Rightarrow> string list \<Rightarrow> string list" where
  "glob_loop Glob xcmds [] = xcmds"
| "glob_loop Glob xcmds (a # cmdline) =
     (if IndexAny a ''*?'' > - 1
      then glob_loop Glob (xcmds @ Glob a) cmdline
      else glob_loop Glob (xcmds @ [a]) cmdline)"

definition glob :: "(string \<Rightarrow> string list) \<Rightarrow> string list \<Rightarrow> string list" where
  "glob Glob cmdline = glob_loop Glob [] cmdline"

subsection \<open>Parse\<close>

text \<open>
  The function that \<^verbatim>\<open>Parse\<close> passes to \<^verbatim>\<open>VisitAll\<close>, in two parts: the value that
  it computes for a flag named \<^verbatim>\<open>#n\<close>, and the call of \<^verbatim>\<open>Set\<close> with it. Indexing a
  string or a slice out of range panics; \<^verbatim>\<open>quitf\<close> leaves the process with status 1.
  \<^verbatim>\<open>Set\<close> is a method of the interface \<^verbatim>\<open>flag.Value\<close>: it is a parameter here, and
  \<^verbatim>\<open>Parse\<close> passes \<^term>\<open>Value_Set\<close>.
\<close>

definition positional :: "arch \<Rightarrow> string list \<Rightarrow> Flag \<Rightarrow> error + string" where
  "positional a argv fl =
     (case Atoi a (tl (Name fl)) of
        (n, Some e) \<Rightarrow> Inl (Exit 1)
      | (n, None) \<Rightarrow>
          let idx = wrap a (n - 1)
          in if idx < int (length argv)
             then if isListValue (Value fl)
                  then if 0 \<le> idx \<and> idx \<le> int (length argv)
                       then Inr (Join (drop (nat idx) argv) '','')
                       else Inl Panic
                  else if 0 \<le> idx \<and> idx < int (length argv)
                       then Inr (argv ! nat idx)
                       else Inl Panic
             else Inr (DefValue fl))"

definition visit ::
  "('s \<Rightarrow> Value \<Rightarrow> string \<Rightarrow> 's \<times> Value \<times> bool) \<Rightarrow> arch \<Rightarrow> string list \<Rightarrow> 's \<Rightarrow> Flag
     \<Rightarrow> error + ('s \<times> Flag)" where
  "visit Set a argv st fl =
     (if Name fl = [] then Inl Panic
      else if hd (Name fl) = CHR ''#''
      then case positional a argv fl of
             Inl e \<Rightarrow> Inl e
           | Inr val \<Rightarrow>
               (case Set st (Value fl) val of
                  (st1, v1, res) \<Rightarrow>
                    if \<not> res then Inl (Exit 1) else Inr (st1, fl\<lparr>Value := v1\<rparr>))
      else Inr (st, fl))"

text \<open>
  \<^verbatim>\<open>VisitAll\<close>: the flags are visited in the order of the registry, that of their names.
\<close>

fun VisitAll ::
  "('s \<Rightarrow> Value \<Rightarrow> string \<Rightarrow> 's \<times> Value \<times> bool) \<Rightarrow> arch \<Rightarrow> string list \<Rightarrow> 's \<Rightarrow> Flag list
     \<Rightarrow> Flag list \<Rightarrow> error + ('s \<times> Flag list)" where
  "VisitAll Set a argv st seen [] = Inr (st, seen)"
| "VisitAll Set a argv st seen (fl # fls) =
     (case visit Set a argv st fl of
        Inl e \<Rightarrow> Inl e
      | Inr (st1, fl1) \<Rightarrow> VisitAll Set a argv st1 (seen @ [fl1]) fls)"

definition Parse ::
  "(state \<Rightarrow> string \<Rightarrow> string list) \<Rightarrow> (string \<Rightarrow> int \<times> bool) \<Rightarrow> arch \<Rightarrow> state \<Rightarrow> FlagExtra
     \<Rightarrow> string list \<Rightarrow> bool \<Rightarrow> error + (state \<times> FlagExtra)" where
  "Parse Glob ParseInt a st fx cmdline doGlob =
     (let cmdline1 = (if doGlob then glob (Glob st) cmdline else cmdline)
      in case FlagSet_Parse ParseInt a st (formal fx) cmdline1 of
           Inl e \<Rightarrow> Inl e
         | Inr (st1, formal1, args1) \<Rightarrow>
             (case VisitAll (Value_Set ParseInt a) a args1 st1 [] formal1 of
                Inl e \<Rightarrow> Inl e
              | Inr (st2, formal2) \<Rightarrow> Inr (st2, fx\<lparr>formal := formal2, args := args1\<rparr>)))"

text \<open>
  \<^verbatim>\<open>ParseArgs\<close>: the arguments of the process after the program name, with glob
  expansion on Windows only. \<^verbatim>\<open>os.Args\<close> and \<^verbatim>\<open>isWindows\<close> are parameters.
\<close>

definition ParseArgs ::
  "(state \<Rightarrow> string \<Rightarrow> string list) \<Rightarrow> (string \<Rightarrow> int \<times> bool) \<Rightarrow> arch \<Rightarrow> bool \<Rightarrow> state
     \<Rightarrow> FlagExtra \<Rightarrow> string list \<Rightarrow> error + (state \<times> FlagExtra)" where
  "ParseArgs Glob ParseInt a isWindows st fx osArgs =
     (case osArgs of
        [] \<Rightarrow> Inl Panic
      | prog # rest \<Rightarrow> Parse Glob ParseInt a st fx rest isWindows)"

subsection \<open>ParseConfig\<close>

fun config_loop :: "string list \<Rightarrow> string list \<Rightarrow> string list" where
  "config_loop out [] = out"
| "config_loop out (line # lines) =
     (let idx = Index line CHR ''#'';
          line1 = (if idx > - 1 then take (nat idx) line else line);
          line2 = TrimSpace line1
      in if length line2 > 0
         then config_loop
                (out @ [if Contains line2 CHR ''='' then ''-'' @ line2 else line2]) lines
         else config_loop out lines)"

definition config_tokens :: "string \<Rightarrow> string list" where
  "config_tokens bytes = config_loop [] (Split (ReplaceCRLF bytes) CHR 0x0A)"

definition ParseConfig ::
  "(state \<Rightarrow> string \<Rightarrow> string list) \<Rightarrow> (string \<Rightarrow> int \<times> bool) \<Rightarrow> arch \<Rightarrow> state \<Rightarrow> FlagExtra
     \<Rightarrow> string \<Rightarrow> error + (state \<times> FlagExtra)" where
  "ParseConfig Glob ParseInt a st fx filename =
     (case files st filename of
        None \<Rightarrow> Inl (Exit 1)
      | Some bytes \<Rightarrow> Parse Glob ParseInt a st fx (config_tokens bytes) True)"

subsection \<open>Registering flags\<close>

definition Var :: "state \<Rightarrow> FlagExtra \<Rightarrow> Value \<Rightarrow> string \<Rightarrow> string \<Rightarrow> error + FlagExtra" where
  "Var st fx v name usage =
     (if lookup (formal fx) name \<noteq> None then Inl Panic
      else Inr (fx\<lparr>formal :=
             insort_key Name \<lparr>Name = name, Usage = usage, Value = v, DefValue = Value_String st v\<rparr>
               (formal fx)\<rparr>))"

definition FlagExtra_newFileValue ::
  "state \<Rightarrow> FlagExtra \<Rightarrow> string \<Rightarrow> bool \<Rightarrow> state \<times> FlagExtra \<times> nat" where
  "FlagExtra_newFileValue st fx name inp =
     (let file = nheap st
      in (st\<lparr>heap := (heap st)(file := newFileValue name inp), nheap := file + 1\<rparr>,
          addFile fx file, file))"

definition OpenFile ::
  "state \<Rightarrow> FlagExtra \<Rightarrow> string \<Rightarrow> string \<Rightarrow> string \<Rightarrow> error + (state \<times> FlagExtra)" where
  "OpenFile st fx name def usage =
     (case FlagExtra_newFileValue st fx def True of
        (st1, fx1, file) \<Rightarrow>
          (case Var st1 fx1 (FileV file) name usage of
             Inl e \<Rightarrow> Inl e
           | Inr fx2 \<Rightarrow> Inr (st1, fx2)))"

definition CreateFile ::
  "state \<Rightarrow> FlagExtra \<Rightarrow> string \<Rightarrow> string \<Rightarrow> string \<Rightarrow> error + (state \<times> FlagExtra)" where
  "CreateFile st fx name def usage =
     (case FlagExtra_newFileValue st fx def False of
        (st1, fx1, file) \<Rightarrow>
          (case Var st1 fx1 (FileV file) name usage of
             Inl e \<Rightarrow> Inl e
           | Inr fx2 \<Rightarrow> Inr (st1, fx2)))"

definition OpenFileList :: "state \<Rightarrow> FlagExtra \<Rightarrow> string \<Rightarrow> string \<Rightarrow> string \<Rightarrow> error + FlagExtra" where
  "OpenFileList st fx name def usage =
     Var st fx (FilesV (ValueList.extend (makeValueList def) (filesValue.fields []))) name usage"


definition StringList :: "state \<Rightarrow> FlagExtra \<Rightarrow> string \<Rightarrow> string \<Rightarrow> string \<Rightarrow> error + FlagExtra" where
  "StringList st fx name def usage =
     Var st fx (StringsV (ValueList.extend (makeValueList def) (stringsValue.fields []))) name usage"


definition FlagSet_Int :: "state \<Rightarrow> FlagExtra \<Rightarrow> string \<Rightarrow> int \<Rightarrow> string \<Rightarrow> error + FlagExtra" where
  "FlagSet_Int st fx name val usage = Var st fx (IntV val) name usage"

section \<open>Notions used in the statements\<close>

text \<open>A sequence of \<^verbatim>\<open>Set\<close> calls on one list value, whatever each call returns.\<close>

fun Set_calls :: "('s \<Rightarrow> string \<Rightarrow> 's \<times> bool) \<Rightarrow> 's \<Rightarrow> string list \<Rightarrow> 's" where
  "Set_calls Convert s [] = s"
| "Set_calls Convert s (t # ts) = Set_calls Convert (fst (ValueList_Set Convert s t)) ts"

text \<open>The parts that the integer converter and the file converter accept.\<close>

definition is_int :: "arch \<Rightarrow> string \<Rightarrow> bool" where
  "is_int a v = (snd (Atoi a v) = None)"

definition can_open :: "state \<Rightarrow> string \<Rightarrow> bool" where
  "can_open st v = (v \<noteq> [] \<and> (v = ''stdin'' \<or> v = ''stdout'' \<or> files st v \<noteq> None))"

text \<open>
  Two states for the examples: a process that can open and create no file, with the
  descriptors 0 to 2 taken, and the same with one readable file.
\<close>

definition start :: state where
  "start = \<lparr>files = Map.empty, creatable = (\<lambda>name. False), nfd = 3, closed = [],
            heap = (\<lambda>p. newFileValue [] True), nheap = 0\<rparr>"

definition with_a_txt :: state where
  "with_a_txt = start\<lparr>files := [''a.txt'' \<mapsto> ''hello'']\<rparr>"

text \<open>The handles that \<^verbatim>\<open>Close\<close> of a \<^verbatim>\<open>fileValue\<close> reaches.\<close>

definition closes :: "fileValue \<Rightarrow> File list" where
  "closes this =
     (if fv_std this then [] else case fv_f this of None \<Rightarrow> [] | Some h \<Rightarrow> [h])"

text \<open>A token that \<^verbatim>\<open>glob\<close> takes for a pattern, and what it puts in its place.\<close>

definition wildcard :: "string \<Rightarrow> bool" where
  "wildcard a = (\<exists>c \<in> set a. c = CHR ''*'' \<or> c = CHR ''?'')"

definition expand :: "(string \<Rightarrow> string list) \<Rightarrow> string \<Rightarrow> string list" where
  "expand Glob a = (if wildcard a then Glob a else [a])"

text \<open>A directory with two Go files, for the examples.\<close>

definition go_files :: "string \<Rightarrow> string list" where
  "go_files pattern = (if pattern = ''*.go'' then [''a.go'', ''b.go''] else [])"



definition age_2 :: Flag where
  "age_2 = \<lparr>Name = ''#2'', Usage = ''age of object'', Value = IntV 40, DefValue = ''40''\<rparr>"

definition least_32 :: Flag where
  "least_32 = \<lparr>Name = ''#-2147483648'', Usage = [], Value = StringV ''dolly'', DefValue = ''dolly''\<rparr>"






text \<open>An integer parser for the examples, which reads decimal numbers only.\<close>

definition decimal :: "arch \<Rightarrow> string \<Rightarrow> int \<times> bool" where
  "decimal a s = (fst (Atoi a s), snd (Atoi a s) = None)"



text \<open>The tokens that \<^verbatim>\<open>ParseConfig\<close> makes of one line.\<close>

definition line_tokens :: "string \<Rightarrow> string list" where
  "line_tokens line =
     (let l = TrimSpace (takeWhile (\<lambda>c. c \<noteq> CHR ''#'') line)
      in if l = [] then [] else [if CHR ''='' \<in> set l then ''-'' @ l else l])"

text \<open>What a parse has bound: the names of the flags with their values, if it returns.\<close>

definition bound :: "error + state \<times> FlagExtra \<Rightarrow> (string \<times> Value) list option" where
  "bound r =
     (case r of
        Inl e \<Rightarrow> None
      | Inr (st, fx) \<Rightarrow> Some (map (\<lambda>fl. (Name fl, Value fl)) (formal fx)))"

text \<open>
  For the examples: a registry with one string flag and one with an integer flag,
  registries with the flags of the example program, a text of comments and blank
  lines, and texts with the line of the flag \<^verbatim>\<open>age\<close>.
\<close>

definition x_flag :: FlagExtra where
  "x_flag = \<lparr>formal = [\<lparr>Name = ''x'', Usage = ''a string'', Value = StringV ''d'', DefValue = ''d''\<rparr>],
             args = [], Files = []\<rparr>"







section \<open>Properties of the value lists\<close>

lemma converted_Nil: "converted Convert s [] = s"
  by (simp add: converted_def)

lemma converted_Cons: "converted Convert s (v # vs) = converted Convert (fst (Convert s v)) vs"
  by (simp add: converted_def)

lemma traced_apply:
  "traced Convert (x, log) v = (case Convert x v of (x1, ok) \<Rightarrow> ((x1, log @ [v]), ok))"
  by (simp add: traced_def)

lemma Set_loop_traced:
  "Set_loop (traced Convert) (s, log0) parts = ((s', log), ok) \<Longrightarrow>
   \<exists>n. n \<le> length parts \<and> log = log0 @ take n parts \<and>
       s' = converted Convert s (take n parts) \<and>
       Set_loop Convert s parts = (s', ok) \<and>
       (\<forall>i < n. Suc i < n \<or> ok \<longrightarrow> snd (Convert (converted Convert s (take i parts)) (parts ! i))) \<and>
       (ok \<longrightarrow> n = length parts) \<and>
       (\<not> ok \<longrightarrow> 0 < n \<and> \<not> snd (Convert (converted Convert s (take (n - 1) parts)) (parts ! (n - 1))))"
proof (induction parts arbitrary: s log0)
  case Nil
  then show ?case by (simp add: converted_Nil)
next
  case (Cons v vs)
  obtain s1 ok1 where c: "Convert s v = (s1, ok1)" by (cases "Convert s v")
  show ?case
  proof (cases ok1)
    case False
    with Cons.prems c have r: "s' = s1" "log = log0 @ [v]" "ok = False"
      by (simp_all add: traced_apply)
    show ?thesis
      apply (rule exI [of _ 1])
      using r c False by (simp add: converted_Nil converted_Cons)
  next
    case True
    with Cons.prems c have "Set_loop (traced Convert) (s1, log0 @ [v]) vs = ((s', log), ok)"
      by (simp add: traced_apply)
    from Cons.IH [OF this] obtain n where n:
      "n \<le> length vs" "log = (log0 @ [v]) @ take n vs"
      "s' = converted Convert s1 (take n vs)"
      "Set_loop Convert s1 vs = (s', ok)"
      "\<forall>i < n. Suc i < n \<or> ok \<longrightarrow> snd (Convert (converted Convert s1 (take i vs)) (vs ! i))"
      "ok \<longrightarrow> n = length vs"
      "\<not> ok \<longrightarrow> 0 < n \<and> \<not> snd (Convert (converted Convert s1 (take (n - 1) vs)) (vs ! (n - 1)))"
      by blast
    have all: "\<forall>i < Suc n. Suc i < Suc n \<or> ok \<longrightarrow>
        snd (Convert (converted Convert s (take i (v # vs))) ((v # vs) ! i))"
    proof (intro allI impI)
      fix i assume i: "i < Suc n" and h: "Suc i < Suc n \<or> ok"
      show "snd (Convert (converted Convert s (take i (v # vs))) ((v # vs) ! i))"
      proof (cases i)
        case 0
        then show ?thesis using c True by (simp add: converted_Nil)
      next
        case (Suc j)
        with i h n(5) have "snd (Convert (converted Convert s1 (take j vs)) (vs ! j))" by auto
        with Suc c show ?thesis by (simp add: converted_Cons)
      qed
    qed
    have last: "\<not> ok \<longrightarrow> 0 < Suc n \<and>
        \<not> snd (Convert (converted Convert s (take (Suc n - 1) (v # vs))) ((v # vs) ! (Suc n - 1)))"
    proof
      assume "\<not> ok"
      with n(7) have p: "0 < n" and q: "\<not> snd (Convert (converted Convert s1 (take (n - 1) vs)) (vs ! (n - 1)))"
        by auto
      from p obtain m where m: "n = Suc m" by (cases n) auto
      with q c show "0 < Suc n \<and>
        \<not> snd (Convert (converted Convert s (take (Suc n - 1) (v # vs))) ((v # vs) ! (Suc n - 1)))"
        by (simp add: converted_Cons)
    qed
    show ?thesis
      apply (rule exI [of _ "Suc n"])
      using n(1-4,6) c True all last by (simp add: converted_Cons)
  qed
qed

text \<open>
  Claim C3. \<^verbatim>\<open>Set\<close> splits the token at the commas and calls the converter on the
  parts from left to right: the parts it was called with are an initial segment of the
  parts of the token. The traced run and the plain one end in the same state with the same
  result. Every call but the last succeeded. When \<^verbatim>\<open>Set\<close> succeeds, the converter was
  called on every part, in order; when it fails, the last call is the one that failed,
  and no later part was converted. The state is the one reached by converting the
  parts of the log in order.
\<close>

theorem C3_ValueList_Set_short_circuit:
  assumes "ValueList_Set (traced Convert) (s, []) token = ((s', log), ok)"
  shows "log = take (length log) (Split token CHR '','') \<and>
         ValueList_Set Convert s token = (s', ok) \<and>
         s' = converted Convert s log \<and>
         (\<forall>i < length log. Suc i < length log \<or> ok \<longrightarrow>
            snd (Convert (converted Convert s (take i log)) (log ! i))) \<and>
         (ok \<longrightarrow> log = Split token CHR '','') \<and>
         (\<not> ok \<longrightarrow> log \<noteq> [] \<and> \<not> snd (Convert (converted Convert s (butlast log)) (last log)))"
proof -
  let ?parts = "Split token CHR '',''"
  from assms have "Set_loop (traced Convert) (s, []) ?parts = ((s', log), ok)"
    by (simp add: ValueList_Set_def)
  from Set_loop_traced [OF this] obtain n where n:
      "n \<le> length ?parts" "log = take n ?parts"
      "s' = converted Convert s (take n ?parts)"
      "Set_loop Convert s ?parts = (s', ok)"
      "\<forall>i < n. Suc i < n \<or> ok \<longrightarrow> snd (Convert (converted Convert s (take i ?parts)) (?parts ! i))"
      "ok \<longrightarrow> n = length ?parts"
      "\<not> ok \<longrightarrow> 0 < n \<and> \<not> snd (Convert (converted Convert s (take (n - 1) ?parts)) (?parts ! (n - 1)))"
    by auto
  from n(1,2) have len: "length log = n" by simp
  have a: "log = take (length log) ?parts" using n(2) len by simp
  have b: "ValueList_Set Convert s token = (s', ok)" using n(4) by (simp add: ValueList_Set_def)
  have c: "s' = converted Convert s log" using n(2,3) by simp
  have d: "\<forall>i < length log. Suc i < length log \<or> ok \<longrightarrow>
            snd (Convert (converted Convert s (take i log)) (log ! i))"
  proof (intro allI impI)
    fix i assume i: "i < length log" and h: "Suc i < length log \<or> ok"
    have t: "take i log = take i ?parts" using n(2) i len by (simp add: min_def)
    have u: "log ! i = ?parts ! i" using n(2) i len by simp
    from n(5) i h len have "snd (Convert (converted Convert s (take i ?parts)) (?parts ! i))"
      by blast
    with t u show "snd (Convert (converted Convert s (take i log)) (log ! i))"
      by simp
  qed
  have e: "ok \<longrightarrow> log = ?parts" using n(2,6) by simp
  have f: "\<not> ok \<longrightarrow> log \<noteq> [] \<and> \<not> snd (Convert (converted Convert s (butlast log)) (last log))"
  proof
    assume nok: "\<not> ok"
    with n(7) have p: "0 < n" and q: "\<not> snd (Convert (converted Convert s (take (n - 1) ?parts)) (?parts ! (n - 1)))"
      by auto
    from p len have ne: "log \<noteq> []" by auto
    have "butlast log = take (n - 1) ?parts" using n(1,2) by (simp add: butlast_take)
    moreover have "last log = ?parts ! (n - 1)" using n(1,2) p ne len
      by (metis last_conv_nth nth_take diff_less zero_less_one)
    ultimately show "log \<noteq> [] \<and> \<not> snd (Convert (converted Convert s (butlast log)) (last log))"
      using q ne by simp
  qed
  from a b c d e f show ?thesis by blast
qed

theorem C3_ValueList_Set_short_circuit_witness:
  "ValueList_Set (traced (intsValue_Convert Int64)) (\<lparr>vl_name = ''0'', ints = []\<rparr>, []) ''10,x,30'' =
     ((\<lparr>vl_name = ''0'', ints = [10]\<rparr>, [''10'', ''x'']), False) \<and>
   [''10'', ''x''] = take 2 (Split ''10,x,30'' CHR '','') \<and>
   ValueList_Set (intsValue_Convert Int64) \<lparr>vl_name = ''0'', ints = []\<rparr> ''10,x,30'' =
     (\<lparr>vl_name = ''0'', ints = [10]\<rparr>, False) \<and>
   \<not> snd (intsValue_Convert Int64 (converted (intsValue_Convert Int64) \<lparr>vl_name = ''0'', ints = []\<rparr> [''10'']) ''x'')"
proof -
  have h: "ValueList_Set (traced (intsValue_Convert Int64)) (\<lparr>vl_name = ''0'', ints = []\<rparr>, []) ''10,x,30'' =
     ((\<lparr>vl_name = ''0'', ints = [10]\<rparr>, [''10'', ''x'']), False)"
    by (simp add: ValueList_Set_def traced_apply intsValue_Convert_def Atoi_def isDigit_def
        digitVal_def minInt_def maxInt_def)
  from C3_ValueList_Set_short_circuit [OF h] show ?thesis using h by simp
qed

lemma takeWhile_list_all: "list_all P xs \<Longrightarrow> takeWhile P xs = xs"
  by (induction xs) auto

lemma intsValue_Convert_eq:
  "intsValue_Convert a l v =
     (if is_int a v then (l\<lparr>ints := ints l @ [fst (Atoi a v)]\<rparr>, True) else (l, False))"
  by (auto simp: intsValue_Convert_def is_int_def split: prod.splits option.splits)

lemma ints_Set_loop:
  "Set_loop (intsValue_Convert a) l parts =
     (l\<lparr>ints := ints l @ map (\<lambda>v. fst (Atoi a v)) (takeWhile (is_int a) parts)\<rparr>,
      list_all (is_int a) parts)"
  by (induction parts arbitrary: l) (simp_all add: intsValue_Convert_eq)

lemma ints_Set_calls:
  "Set_calls (intsValue_Convert a) l tokens =
     l\<lparr>ints := ints l @ concat (map (\<lambda>t. map (\<lambda>v. fst (Atoi a v))
                       (takeWhile (is_int a) (Split t CHR '',''))) tokens)\<rparr>"
  by (induction tokens arbitrary: l) (simp_all add: ValueList_Set_def ints_Set_loop)

lemma strings_Set_loop:
  "Set_loop stringsValue_Convert l parts = (l\<lparr>strings := strings l @ parts\<rparr>, True)"
  by (induction parts arbitrary: l) (simp_all add: stringsValue_Convert_def)

lemma strings_Set_calls:
  "Set_calls stringsValue_Convert l tokens =
     l\<lparr>strings := strings l @ concat (map (\<lambda>t. Split t CHR '','') tokens)\<rparr>"
  by (induction tokens arbitrary: l) (simp_all add: ValueList_Set_def strings_Set_loop)

lemma filesValue_Convert_eq:
  "\<exists>st1. filesValue_Convert (st, l) v =
     (if can_open st v then ((st1, l\<lparr>names := names l @ [v]\<rparr>), True) else ((st, l), False))
     \<and> files st1 = files st"
  by (auto simp: filesValue_Convert_def can_open_def fileValue_Set_def newFileValue_def
      fileValue_Close_def File_Close_def os_Open_def Let_def split: option.splits)

lemma can_open_cong: "files st1 = files st \<Longrightarrow> can_open st1 = can_open st"
  by (auto simp: can_open_def fun_eq_iff)

lemma files_Set_loop:
  "\<exists>st1. Set_loop filesValue_Convert (st, l) parts =
     ((st1, l\<lparr>names := names l @ takeWhile (can_open st) parts\<rparr>), list_all (can_open st) parts)
     \<and> files st1 = files st"
proof (induction parts arbitrary: st l)
  case Nil
  then show ?case by simp
next
  case (Cons v vs)
  from filesValue_Convert_eq [of st l v] obtain st1 where c:
    "filesValue_Convert (st, l) v =
     (if can_open st v then ((st1, l\<lparr>names := names l @ [v]\<rparr>), True) else ((st, l), False))"
    "files st1 = files st" by blast
  show ?case
  proof (cases "can_open st v")
    case False
    with c show ?thesis by simp
  next
    case True
    from Cons.IH [of st1 "l\<lparr>names := names l @ [v]\<rparr>"] obtain st2 where
      "Set_loop filesValue_Convert (st1, l\<lparr>names := names l @ [v]\<rparr>) vs =
        ((st2, l\<lparr>names := names l @ [v] @ takeWhile (can_open st1) vs\<rparr>), list_all (can_open st1) vs)"
      "files st2 = files st1" by auto
    with c True can_open_cong [OF c(2)] show ?thesis by simp
  qed
qed

lemma files_Set_calls:
  "\<exists>st1. Set_calls filesValue_Convert (st, l) tokens =
     (st1, l\<lparr>names := names l @ concat (map (\<lambda>t. takeWhile (can_open st) (Split t CHR '','')) tokens)\<rparr>)
     \<and> files st1 = files st"
proof (induction tokens arbitrary: st l)
  case Nil
  then show ?case by simp
next
  case (Cons t ts)
  from files_Set_loop [of st l "Split t CHR '',''"] obtain st1 where s:
    "Set_loop filesValue_Convert (st, l) (Split t CHR '','') =
     ((st1, l\<lparr>names := names l @ takeWhile (can_open st) (Split t CHR '','')\<rparr>),
       list_all (can_open st) (Split t CHR '',''))"
    "files st1 = files st" by blast
  from Cons.IH [of st1 "l\<lparr>names := names l @ takeWhile (can_open st) (Split t CHR '','')\<rparr>"]
  obtain st2 where
    "Set_calls filesValue_Convert (st1, l\<lparr>names := names l @ takeWhile (can_open st) (Split t CHR '','')\<rparr>) ts =
     (st2, l\<lparr>names := names l @ takeWhile (can_open st) (Split t CHR '','') @
          concat (map (\<lambda>t. takeWhile (can_open st1) (Split t CHR '','')) ts)\<rparr>)"
    "files st2 = files st1" by auto
  with s can_open_cong [OF s(2)] show ?case by (simp add: ValueList_Set_def)
qed

text \<open>
  Claim C2 fails: the converters append to the accumulated elements and nothing ever
  empties them. After \<^verbatim>\<open>Set("1,2")\<close> and \<^verbatim>\<open>Set("3")\<close> on a new integer list, both
  successful, the elements are 1, 2, 3 and not the conversions of the parts of the last
  token.
\<close>

theorem C2_counterexample:
  "snd (ValueList_Set (intsValue_Convert Int64) \<lparr>vl_name = ''0'', ints = []\<rparr> ''1,2'') \<and>
   snd (ValueList_Set (intsValue_Convert Int64)
          (fst (ValueList_Set (intsValue_Convert Int64) \<lparr>vl_name = ''0'', ints = []\<rparr> ''1,2''))
          ''3'') \<and>
   ints (fst (ValueList_Set (intsValue_Convert Int64)
          (fst (ValueList_Set (intsValue_Convert Int64) \<lparr>vl_name = ''0'', ints = []\<rparr> ''1,2''))
          ''3'')) = [1, 2, 3] \<and>
   map (\<lambda>v. fst (Atoi Int64 v)) (Split ''3'' CHR '','') = [3]"
  by (simp add: ValueList_Set_def intsValue_Convert_def Atoi_def isDigit_def digitVal_def
      minInt_def maxInt_def)

text \<open>
  Claim C2, amended. After any sequence of \<^verbatim>\<open>Set\<close> calls on a list value, the
  accumulated elements are the elements it held before, followed by, for each call in
  order, the conversions of the parts of its token up to the first part that fails to
  convert: elements of earlier calls remain. A call succeeds when every part of its
  token converts; then all its parts are added, and these are the only elements when
  the value held none before.
\<close>

theorem C2_Set_accumulates:
  "ints (Set_calls (intsValue_Convert a) li tokens) =
     ints li @ concat (map (\<lambda>t. map (\<lambda>v. fst (Atoi a v))
                          (takeWhile (is_int a) (Split t CHR '',''))) tokens) \<and>
   strings (Set_calls stringsValue_Convert ls tokens) =
     strings ls @ concat (map (\<lambda>t. Split t CHR '','') tokens) \<and>
   names (snd (Set_calls filesValue_Convert (st, lf) tokens)) =
     names lf @ concat (map (\<lambda>t. takeWhile (can_open st) (Split t CHR '','')) tokens) \<and>
   snd (ValueList_Set (intsValue_Convert a) li t) = list_all (is_int a) (Split t CHR '','') \<and>
   snd (ValueList_Set stringsValue_Convert ls t) = True \<and>
   snd (ValueList_Set filesValue_Convert (st, lf) t) = list_all (can_open st) (Split t CHR '','') \<and>
   (snd (ValueList_Set (intsValue_Convert a) li t) \<longrightarrow>
      ints (fst (ValueList_Set (intsValue_Convert a) li t)) =
        ints li @ map (\<lambda>v. fst (Atoi a v)) (Split t CHR '','')) \<and>
   strings (fst (ValueList_Set stringsValue_Convert ls t)) = strings ls @ Split t CHR '','' \<and>
   (snd (ValueList_Set filesValue_Convert (st, lf) t) \<longrightarrow>
      names (snd (fst (ValueList_Set filesValue_Convert (st, lf) t))) =
        names lf @ Split t CHR '','')"
proof -
  obtain st1 where f1: "Set_calls filesValue_Convert (st, lf) tokens =
     (st1, lf\<lparr>names := names lf @
        concat (map (\<lambda>t. takeWhile (can_open st) (Split t CHR '','')) tokens)\<rparr>)"
    using files_Set_calls [of st lf tokens] by blast
  obtain st2 where f2: "Set_loop filesValue_Convert (st, lf) (Split t CHR '','') =
     ((st2, lf\<lparr>names := names lf @ takeWhile (can_open st) (Split t CHR '','')\<rparr>),
      list_all (can_open st) (Split t CHR '',''))"
    using files_Set_loop [of st lf "Split t CHR '',''"] by blast
  show ?thesis
    using f1 f2
    by (simp add: ints_Set_calls strings_Set_calls ints_Set_loop strings_Set_loop
        ValueList_Set_def takeWhile_list_all)
qed

theorem C2_Set_accumulates_witness:
  "ints (Set_calls (intsValue_Convert Int64) \<lparr>vl_name = ''0'', ints = []\<rparr> [''1,x,5'', ''2,3'']) =
     [1, 2, 3] \<and>
   snd (ValueList_Set (intsValue_Convert Int64) \<lparr>vl_name = ''0'', ints = []\<rparr> ''2,3'') \<and>
   ints (fst (ValueList_Set (intsValue_Convert Int64) \<lparr>vl_name = ''0'', ints = []\<rparr> ''2,3'')) =
     [2, 3]"
  using C2_Set_accumulates [where a = Int64 and li = "\<lparr>vl_name = ''0'', ints = []\<rparr>"
      and tokens = "[''1,x,5'', ''2,3'']" and t = "''2,3''"]
  by (simp add: is_int_def Atoi_def isDigit_def digitVal_def minInt_def maxInt_def)

section \<open>Properties of fileValue\<close>

text \<open>
  Claim C5. \<^verbatim>\<open>Set\<close> fails on the empty token, and on a token other than
  \<^verbatim>\<open>stdin\<close> and \<^verbatim>\<open>stdout\<close> whose path cannot be opened (input) or created (output).
  The failed call binds no handle: the handle field is what it was, so it remains nil, and
  no descriptor was obtained from the system.
\<close>

theorem C5_fileValue_Set_fails:
  assumes "name = [] \<or>
           (name \<noteq> ''stdin'' \<and> name \<noteq> ''stdout'' \<and>
            (if fv_in this then os_Open st name else os_Create st name) = None)"
  shows "snd (snd (fileValue_Set st this name)) = False \<and>
         fv_f (fst (snd (fileValue_Set st this name))) = fv_f this \<and>
         (fv_f this = None \<longrightarrow> fv_f (fst (snd (fileValue_Set st this name))) = None) \<and>
         fst (fileValue_Set st this name) = st"
  using assms by (auto simp: fileValue_Set_def Let_def)

theorem C5_fileValue_Set_fails_witness:
  "(if fv_in (newFileValue [] True) then os_Open start ''missing.txt''
    else os_Create start ''missing.txt'') = None \<and>
   snd (snd (fileValue_Set start (newFileValue [] True) ''missing.txt'')) = False \<and>
   fv_f (fst (snd (fileValue_Set start (newFileValue [] True) ''missing.txt''))) = None \<and>
   snd (snd (fileValue_Set start (newFileValue [] True) [])) = False \<and>
   fv_f (fst (snd (fileValue_Set start (newFileValue [] True) []))) = None"
proof -
  have h: "(if fv_in (newFileValue [] True) then os_Open start ''missing.txt''
    else os_Create start ''missing.txt'') = None"
    by (simp add: newFileValue_def os_Open_def start_def)
  have n: "fv_f (newFileValue [] True) = None" by (simp add: newFileValue_def)
  from C5_fileValue_Set_fails [of "''missing.txt''" "newFileValue [] True" start]
       C5_fileValue_Set_fails [of "[]" "newFileValue [] True" start] h n
  show ?thesis by simp
qed

text \<open>
  Claim C10 fails: \<^verbatim>\<open>Set\<close> clears the standard-stream marking before it tries to
  open the path, so a failed call on a new value leaves the marking false.
\<close>

theorem C10_counterexample:
  "snd (snd (fileValue_Set start (newFileValue [] True) ''missing.txt'')) = False \<and>
   fv_std (newFileValue [] True) = True \<and>
   fv_std (fst (snd (fileValue_Set start (newFileValue [] True) ''missing.txt''))) = False"
  by (simp add: fileValue_Set_def newFileValue_def os_Open_def start_def)

text \<open>
  Claim C10, amended. When \<^verbatim>\<open>Set\<close> fails, the handle, the logical name and the
  input mode of the value are what they were, and the system state is unchanged. On the
  empty token the value is entirely unchanged; on a path that cannot be opened or created
  the standard-stream marking is false afterwards, whatever it was.
\<close>

theorem C10_fileValue_Set_failure_state:
  assumes "fileValue_Set st this name = (st1, this1, False)"
  shows "st1 = st \<and> fv_f this1 = fv_f this \<and> fv_name this1 = fv_name this \<and>
         fv_in this1 = fv_in this \<and>
         (name = [] \<longrightarrow> this1 = this) \<and>
         (name \<noteq> [] \<longrightarrow> this1 = this\<lparr>fv_std := False\<rparr>)"
  using assms
  by (auto simp: fileValue_Set_def Let_def split: if_splits option.splits)

theorem C10_fileValue_Set_failure_state_witness:
  "fileValue_Set start (newFileValue ''stdin'' True) ''missing.txt'' =
     (start, (newFileValue ''stdin'' True)\<lparr>fv_std := False\<rparr>, False) \<and>
   fv_f ((newFileValue ''stdin'' True)\<lparr>fv_std := False\<rparr>) = fv_f (newFileValue ''stdin'' True) \<and>
   fv_name ((newFileValue ''stdin'' True)\<lparr>fv_std := False\<rparr>) = ''stdin''"
proof -
  have h: "fileValue_Set start (newFileValue ''stdin'' True) ''missing.txt'' =
     (start, (newFileValue ''stdin'' True)\<lparr>fv_std := False\<rparr>, False)"
    by (simp add: fileValue_Set_def newFileValue_def os_Open_def start_def)
  from C10_fileValue_Set_failure_state [OF h] h show ?thesis
    by (simp add: newFileValue_def)
qed

text \<open>
  \<^verbatim>\<open>Close\<close> does nothing on a value marked as a standard stream, and a new value
  set to \<^verbatim>\<open>stdin\<close> or \<^verbatim>\<open>stdout\<close> is so marked.
\<close>

lemma fileValue_Close_std: "fv_std this \<Longrightarrow> fileValue_Close st this = st"
  by (simp add: fileValue_Close_def)

lemma fileValue_Set_fresh_std:
  "name = ''stdin'' \<or> name = ''stdout'' \<Longrightarrow>
   fileValue_Set st (newFileValue def inp) name = (st1, this1, ok) \<Longrightarrow>
   ok \<and> fv_std this1 \<and> fileValue_Close st1 this1 = st1"
  by (auto simp: fileValue_Set_def newFileValue_def fileValue_Close_def)

text \<open>
  \<^verbatim>\<open>Close\<close> of the facade reaches the handles of the tracked values that are not
  marked as standard streams and hold a handle, in the order of the collection, and
  changes nothing else.
\<close>

lemma fileValue_Close_closes:
  "fileValue_Close st this = st\<lparr>closed := closed st @ closes this\<rparr>"
  by (simp add: fileValue_Close_def File_Close_def closes_def split: option.splits)

lemma FlagExtra_Close_fold:
  "fold (\<lambda>f st1. fileValue_Close st1 (heap st1 f)) fs st =
     st\<lparr>closed := closed st @ concat (map (\<lambda>f. closes (heap st f)) fs)\<rparr>"
  by (induction fs arbitrary: st) (simp_all add: fileValue_Close_closes)

lemma FlagExtra_Close_closed:
  "FlagExtra_Close st fx =
     st\<lparr>closed := closed st @ concat (map (\<lambda>f. closes (heap st f)) (Files fx))\<rparr>"
  by (simp add: FlagExtra_Close_def FlagExtra_Close_fold)

lemma FlagExtra_Close_std:
  "\<forall>f \<in> set (Files fx). fv_std (heap st f) \<Longrightarrow> FlagExtra_Close st fx = st"
  by (simp add: FlagExtra_Close_closed closes_def)

text \<open>
  Claim C6 does not hold of the code. \<^verbatim>\<open>Set\<close> on \<^verbatim>\<open>stdin\<close> binds the standard
  input without marking the value as a standard stream: the marking is only the initial
  one, and \<^verbatim>\<open>Set\<close> on a path clears it. With the flag \<^verbatim>\<open>i\<close> registered by
  \<^verbatim>\<open>OpenFile\<close> and the command line \<^verbatim>\<open>-i a.txt -i stdin\<close>, the value holds the
  standard input with the marking false, and \<^verbatim>\<open>Close\<close> of the facade closes the
  standard input (and not the descriptor of \<^verbatim>\<open>a.txt\<close>).
\<close>

theorem C6_stdin_closed_after_path:
  "(case OpenFile with_a_txt NewFlag ''i'' ''stdin'' ''input file'' of
      Inl e \<Rightarrow> None
    | Inr (st, fx) \<Rightarrow>
        (case Parse (\<lambda>st pat. []) ParseInt Int64 st fx
                [''-i'', ''a.txt'', ''-i'', ''stdin''] False of
           Inl e \<Rightarrow> None
         | Inr (st1, fx1) \<Rightarrow>
             Some (heap st1 0, Files fx1, closed (FlagExtra_Close st1 fx1)))) =
   Some (\<lparr>fv_f = Some Stdin, fv_name = ''stdin'', fv_in = True, fv_std = False\<rparr>, [0], [Stdin])"
  by (simp add: OpenFile_def FlagExtra_newFileValue_def Var_def NewFlag_def addFile_def
      Value_String_def fileValue_String_def newFileValue_def with_a_txt_def start_def
      Parse_def scanArg_def flag_Set_def Value_Set_def fileValue_Set_def os_Open_def
      visit_def FlagExtra_Close_def fileValue_Close_def File_Close_def Let_def)

section \<open>Properties of glob\<close>

lemma IndexAny_neg: "- 1 \<le> IndexAny s chars"
  by (induction s) (auto simp: Let_def)

lemma IndexAny_found: "(IndexAny s chars > - 1) = (\<exists>c \<in> set s. c \<in> set chars)"
  using IndexAny_neg [of _ chars]
  by (induction s) (auto simp: Let_def)

lemma IndexAny_wildcard: "(IndexAny a ''*?'' > - 1) = wildcard a"
  by (auto simp: IndexAny_found wildcard_def)

lemma glob_loop_eq: "glob_loop Glob xcmds cmdline = xcmds @ concat (map (expand Glob) cmdline)"
  by (induction cmdline arbitrary: xcmds) (simp_all add: IndexAny_wildcard expand_def)

lemma glob_eq: "glob Glob cmdline = concat (map (expand Glob) cmdline)"
  by (simp add: glob_def glob_loop_eq)

lemma concat_expand_plain:
  "\<forall>a \<in> set cmdline. \<not> wildcard a \<Longrightarrow> concat (map (expand Glob) cmdline) = cmdline"
  by (induction cmdline) (auto simp: expand_def)

text \<open>
  Claim C4. \<^verbatim>\<open>glob\<close> returns the tokens in their order, each token that contains
  \<^verbatim>\<open>*\<close> or \<^verbatim>\<open>?\<close> replaced by the paths that \<^verbatim>\<open>filepath.Glob\<close> returns for it and
  every other token unchanged in its place. A pattern without a match contributes
  nothing. The paths of a pattern come in the order in which \<^verbatim>\<open>filepath.Glob\<close> returns
  them, which is sorted when \<^verbatim>\<open>filepath.Glob\<close> sorts. Without a wildcard token the
  output is the input.
\<close>

theorem C4_glob:
  "glob Glob cmdline = concat (map (\<lambda>a. if wildcard a then Glob a else [a]) cmdline) \<and>
   glob Glob (xs @ a # ys) =
     glob Glob xs @ (if wildcard a then Glob a else [a]) @ glob Glob ys \<and>
   (wildcard a \<and> Glob a = [] \<longrightarrow> glob Glob (xs @ a # ys) = glob Glob xs @ glob Glob ys) \<and>
   ((\<forall>p. sorted (Glob p)) \<and> wildcard a \<longrightarrow> sorted (glob Glob [a])) \<and>
   ((\<forall>a \<in> set cmdline. \<not> wildcard a) \<longrightarrow> glob Glob cmdline = cmdline)"
proof -
  have 1: "glob Glob cmdline = concat (map (\<lambda>a. if wildcard a then Glob a else [a]) cmdline)"
    using glob_eq [of Glob cmdline] by (simp add: expand_def [abs_def])
  have 2: "glob Glob (xs @ a # ys) =
     glob Glob xs @ (if wildcard a then Glob a else [a]) @ glob Glob ys"
    by (simp add: glob_eq expand_def)
  have 3: "(\<forall>a \<in> set cmdline. \<not> wildcard a) \<longrightarrow> glob Glob cmdline = cmdline"
    by (simp add: glob_eq concat_expand_plain)
  have 4: "(\<forall>p. sorted (Glob p)) \<and> wildcard a \<longrightarrow> sorted (glob Glob [a])"
    by (simp add: glob_eq expand_def)
  from 1 2 3 4 show ?thesis by simp
qed

theorem C4_glob_witness:
  "(\<forall>p. sorted (go_files p)) \<and> wildcard ''*.go'' \<and> wildcard ''*.c'' \<and> go_files ''*.c'' = [] \<and>
   \<not> wildcard ''-v'' \<and> \<not> wildcard ''x.txt'' \<and>
   glob go_files [''-v'', ''*.go'', ''*.c'', ''x.txt''] = [''-v'', ''a.go'', ''b.go'', ''x.txt''] \<and>
   glob go_files ([''-v''] @ ''*.c'' # [''x.txt'']) = glob go_files [''-v''] @ glob go_files [''x.txt''] \<and>
   sorted (glob go_files [''*.go'']) \<and>
   glob go_files [''-v'', ''x.txt''] = [''-v'', ''x.txt'']"
proof -
  have s: "\<forall>p. sorted (go_files p)" by (simp add: go_files_def)
  have w: "wildcard ''*.go''" "wildcard ''*.c''" "\<not> wildcard ''-v''" "\<not> wildcard ''x.txt''"
    by (simp_all add: wildcard_def)
  have e: "go_files ''*.c'' = []" by (simp add: go_files_def)
  note c = C4_glob [of go_files]
  from c [of "[''-v'', ''*.go'', ''*.c'', ''x.txt'']"]
       c [of _ "[''-v'']" "''*.c''" "[''x.txt'']"]
       c [of _ "[]" "''*.go''" "[]"]
       c [of "[''-v'', ''x.txt'']"] s w e
  show ?thesis by (simp add: go_files_def)
qed

section \<open>Properties of the positional arguments\<close>





lemma minInt_neg: "minInt a < 0"
  by (simp add: minInt_def)


lemma Atoi_range: "Atoi a s = (N, None) \<Longrightarrow> minInt a \<le> N \<and> N \<le> maxInt a"
  by (auto simp: Atoi_def Let_def split: if_splits option.splits)

lemma wrap_dec:
  assumes "minInt a \<le> N" "N \<le> maxInt a"
  shows "wrap a (N - 1) = (if N = minInt a then maxInt a else N - 1)"
proof (cases a)
  case Int32
  show ?thesis
  proof (cases "N = minInt a")
    case True
    with Int32 show ?thesis by (simp add: wrap_def minInt_def maxInt_def)
  next
    case False
    with assms Int32 have "0 \<le> N - 1 + 2147483648" "N - 1 + 2147483648 < 4294967296"
      by (simp_all add: minInt_def maxInt_def)
    then have "(N - 1 + 2147483648) mod 4294967296 = N - 1 + 2147483648"
      by (rule mod_pos_pos_trivial)
    with False Int32 show ?thesis by (simp add: wrap_def minInt_def)
  qed
next
  case Int64
  show ?thesis
  proof (cases "N = minInt a")
    case True
    with Int64 show ?thesis by (simp add: wrap_def minInt_def maxInt_def)
  next
    case False
    with assms Int64 have "0 \<le> N - 1 + 9223372036854775808"
        "N - 1 + 9223372036854775808 < 18446744073709551616"
      by (simp_all add: minInt_def maxInt_def)
    then have "(N - 1 + 9223372036854775808) mod 18446744073709551616 = N - 1 + 9223372036854775808"
      by (rule mod_pos_pos_trivial)
    with False Int64 show ?thesis by (simp add: wrap_def minInt_def)
  qed
qed

lemma maxInt_pos: "0 < maxInt a"
  by (cases a) (simp_all add: maxInt_def)

lemma positional_of_Atoi:
  assumes "Atoi a (tl (Name fl)) = (N, None)" "1 \<le> N"
  shows "positional a argv fl =
     Inr (if N - 1 < int (length argv)
          then if isListValue (Value fl) then Join (drop (nat (N - 1)) argv) '',''
               else argv ! nat (N - 1)
          else DefValue fl)"
proof -
  from Atoi_range [OF assms(1)] have r: "minInt a \<le> N" "N \<le> maxInt a" by auto
  from assms(2) minInt_neg [of a] have "N \<noteq> minInt a" by auto
  with wrap_dec [OF r] have "wrap a (N - 1) = N - 1" by simp
  with assms show ?thesis by (simp add: positional_def)
qed
text \<open>
  Claim C9 fails in its converse at the least value of \<^verbatim>\<open>int\<close>: there \<^verbatim>\<open>idx--\<close>
  wraps around to the greatest value, the test \<^verbatim>\<open>idx < len(args)\<close> fails and the
  default is taken without any access, although \<open>N\<close> is not positive.
\<close>

theorem C9_counterexample:
  "Atoi Int32 (tl (Name least_32)) = (- 2147483648, None) \<and>
   \<not> (1 \<le> (- 2147483648 :: int)) \<and>
   positional Int32 [''a'', ''b''] least_32 = Inr ''dolly''"
  by (simp add: least_32_def positional_def Atoi_def isDigit_def digitVal_def
      minInt_def maxInt_def wrap_def)

text \<open>
  Claim C9, amended. In \<^term>\<open>positional\<close> the only panic is an access to the
  arguments out of bounds. If \<open>N\<close> is at least 1 there is none. There is one exactly
  when \<open>N\<close> is zero or negative and not the least value of \<^verbatim>\<open>int\<close>; at the least
  value the index wraps around and the default is taken.
\<close>

theorem C9_positional_in_bounds:
  assumes "Atoi a (tl (Name fl)) = (N, None)"
  shows "(1 \<le> N \<longrightarrow> positional a argv fl \<noteq> Inl Panic) \<and>
         (positional a argv fl = Inl Panic) = (N \<le> 0 \<and> N \<noteq> minInt a) \<and>
         (N = minInt a \<and> int (length argv) \<le> maxInt a \<longrightarrow>
            positional a argv fl = Inr (DefValue fl))"
proof -
  from Atoi_range [OF assms] have r: "minInt a \<le> N" "N \<le> maxInt a" by auto
  note w = wrap_dec [OF r]
  have 1: "1 \<le> N \<longrightarrow> positional a argv fl \<noteq> Inl Panic"
    using positional_of_Atoi [OF assms, of argv] by simp
  have 2: "N = minInt a \<longrightarrow> positional a argv fl \<noteq> Inl Panic"
  proof
    assume "N = minInt a"
    with w have "wrap a (N - 1) = maxInt a" by simp
    with assms maxInt_pos [of a] show "positional a argv fl \<noteq> Inl Panic"
      by (simp add: positional_def Let_def)
  qed
  have 3: "N \<le> 0 \<and> N \<noteq> minInt a \<longrightarrow> positional a argv fl = Inl Panic"
  proof
    assume h: "N \<le> 0 \<and> N \<noteq> minInt a"
    with w have "wrap a (N - 1) = N - 1" by simp
    with assms h show "positional a argv fl = Inl Panic"
      by (simp add: positional_def Let_def)
  qed
  have 4: "N = minInt a \<and> int (length argv) \<le> maxInt a \<longrightarrow>
            positional a argv fl = Inr (DefValue fl)"
  proof
    assume h: "N = minInt a \<and> int (length argv) \<le> maxInt a"
    with w have "wrap a (N - 1) = maxInt a" by simp
    with assms h show "positional a argv fl = Inr (DefValue fl)"
      by (simp add: positional_def Let_def)
  qed
  from 1 2 3 4 show ?thesis by (cases "1 \<le> N") auto
qed

theorem C9_positional_in_bounds_witness:
  "Atoi Int64 (tl (Name age_2)) = (2, None) \<and>
   positional Int64 [''10''] age_2 \<noteq> Inl Panic \<and>
   (positional Int64 [''10''] age_2 = Inl Panic) = ((2::int) \<le> 0 \<and> 2 \<noteq> minInt Int64)"
proof -
  have h: "Atoi Int64 (tl (Name age_2)) = (2, None)"
    by (simp add: age_2_def Atoi_def isDigit_def digitVal_def minInt_def maxInt_def)
  from C9_positional_in_bounds [OF h, of "[''10'']"] h show ?thesis by simp
qed

section \<open>Properties of Parse\<close>














section \<open>Properties of ParseConfig\<close>

lemma Index_neg: "- 1 \<le> Index s c"
  by (induction s) (auto simp: Let_def)

lemma Index_found: "(Index s c > - 1) = (c \<in> set s)"
  using Index_neg [of _ c] by (induction s) (auto simp: Let_def)

lemma Contains_iff: "Contains s c = (c \<in> set s)"
  using Index_found [of s c] by (auto simp: Contains_def)

lemma Index_take:
  "(if Index line c > - 1 then take (nat (Index line c)) line else line) =
   takeWhile (\<lambda>x. x \<noteq> c) line"
proof (induction line)
  case Nil
  then show ?case by simp
next
  case (Cons x xs)
  show ?case
  proof (cases "x = c")
    case True
    then show ?thesis by simp
  next
    case False
    note nx = this
    show ?thesis
    proof (cases "c \<in> set xs")
      case True
      then have p: "Index xs c > - 1" by (simp add: Index_found)
      then have "nat (Index xs c + 1) = Suc (nat (Index xs c))" by simp
      with Cons p nx show ?thesis by (simp add: Let_def)
    next
      case False
      then have "\<not> Index xs c > - 1" by (simp add: Index_found)
      with Cons nx False show ?thesis by (simp add: Let_def)
    qed
  qed
qed

lemma config_loop_eq: "config_loop out lines = out @ concat (map line_tokens lines)"
proof (induction lines arbitrary: out)
  case Nil
  then show ?case by simp
next
  case (Cons line lines)
  have "config_loop out (line # lines) = config_loop (out @ line_tokens line) lines"
    using Index_take [of line "CHR ''#''"]
    by (simp add: Let_def line_tokens_def Contains_iff)
  with Cons show ?case by simp
qed



lemma config_tokens_lines:
  "config_tokens bytes = concat (map line_tokens (Split (ReplaceCRLF bytes) (CHR 0x0A)))"
  by (simp add: config_tokens_def config_loop_eq)

lemma line_tokens_flag:
  "TrimSpace (takeWhile (\<lambda>c. c \<noteq> CHR ''#'') l) = name @ ''='' @ val \<Longrightarrow>
   line_tokens l = [''-'' @ name @ ''='' @ val]"
  by (simp add: line_tokens_def)

lemma glob_no_wildcard: "\<forall>t \<in> set ts. \<not> wildcard t \<Longrightarrow> glob Glob ts = ts"
  by (simp add: glob_eq concat_expand_plain)

lemma concat_blank: "\<forall>l \<in> set ls. line_tokens l = [] \<Longrightarrow> concat (map line_tokens ls) = []"
  by (induction ls) auto

text \<open>
  Claim C7 fails for a value that contains \<^verbatim>\<open>#\<close>: the configuration line
  \<^verbatim>\<open>x=a#b\<close> is cut at the comment sign and binds \<^verbatim>\<open>a\<close>, the command-line token
  \<^verbatim>\<open>-x=a#b\<close> binds \<^verbatim>\<open>a#b\<close>.
\<close>

theorem C7_counterexample:
  "bound (ParseConfig (\<lambda>st pattern. []) (decimal Int64) Int64
            (start\<lparr>files := [''cfg'' \<mapsto> ''x=a#b'']\<rparr>) x_flag ''cfg'') =
     Some [(''x'', StringV ''a'')] \<and>
   bound (Parse (\<lambda>st pattern. []) (decimal Int64) Int64
            (start\<lparr>files := [''cfg'' \<mapsto> ''x=a#b'']\<rparr>) x_flag [''-x=a#b''] True) =
     Some [(''x'', StringV ''a#b'')] \<and>
   bound (ParseArgs (\<lambda>st pattern. []) (decimal Int64) Int64 False
            (start\<lparr>files := [''cfg'' \<mapsto> ''x=a#b'']\<rparr>) x_flag [''prog'', ''-x=a#b'']) =
     Some [(''x'', StringV ''a#b'')]"
  by (simp add: bound_def ParseConfig_def Parse_def ParseArgs_def config_tokens_def x_flag_def
      start_def TrimSpace_def TrimLeft_def TrimRight_def asciiSpace_def space2_def space3_def
      Contains_def glob_def scanArg_def flag_Set_def Value_Set_def visit_def Let_def)

text \<open>
  Claim C7, amended. Take a configuration file one of whose lines, cut at its first
  \<^verbatim>\<open>#\<close> and trimmed of surrounding white space, reads \<^verbatim>\<open>name=value\<close>, and none of
  whose tokens contains \<^verbatim>\<open>*\<close> or \<^verbatim>\<open>?\<close>. The line gives the token
  \<^verbatim>\<open>-name=value\<close>, at its place among the tokens of the other lines, and
  \<^verbatim>\<open>ParseConfig\<close> of the file is \<^verbatim>\<open>Parse\<close> of these tokens through the same
  registry, with or without glob expansion, which is \<^verbatim>\<open>ParseArgs\<close> of a command
  line with these tokens on any system. When the other lines are blank or comments,
  the only token is \<^verbatim>\<open>-name=value\<close>.
\<close>

theorem C7_config_line_as_flag:
  assumes "files st filename = Some bytes"
    and "Split (ReplaceCRLF bytes) (CHR 0x0A) = before @ [l] @ after"
    and "TrimSpace (takeWhile (\<lambda>c. c \<noteq> CHR ''#'') l) = name @ ''='' @ val"
    and "\<forall>t \<in> set (config_tokens bytes). \<not> wildcard t"
  shows "config_tokens bytes =
           concat (map line_tokens before) @ [''-'' @ name @ ''='' @ val] @
           concat (map line_tokens after) \<and>
         ParseConfig Glob ParseInt a st fx filename =
           Parse Glob ParseInt a st fx
             (concat (map line_tokens before) @ [''-'' @ name @ ''='' @ val] @
              concat (map line_tokens after)) doGlob \<and>
         ParseConfig Glob ParseInt a st fx filename =
           ParseArgs Glob ParseInt a doGlob st fx
             (prog # concat (map line_tokens before) @ [''-'' @ name @ ''='' @ val] @
              concat (map line_tokens after)) \<and>
         ((\<forall>l1 \<in> set (before @ after). line_tokens l1 = []) \<longrightarrow>
            config_tokens bytes = [''-'' @ name @ ''='' @ val] \<and>
            ParseConfig Glob ParseInt a st fx filename =
              Parse Glob ParseInt a st fx [''-'' @ name @ ''='' @ val] doGlob \<and>
            ParseConfig Glob ParseInt a st fx filename =
              ParseArgs Glob ParseInt a doGlob st fx [prog, ''-'' @ name @ ''='' @ val])"
proof -
  let ?tok = "''-'' @ name @ ''='' @ val"
  let ?toks = "concat (map line_tokens before) @ [?tok] @ concat (map line_tokens after)"
  have 1: "config_tokens bytes = ?toks"
    using assms(2) line_tokens_flag [OF assms(3)] by (simp add: config_tokens_lines)
  from assms(4) have g: "glob (Glob st) (config_tokens bytes) = config_tokens bytes"
    by (rule glob_no_wildcard)
  have "Parse Glob ParseInt a st fx (config_tokens bytes) True =
        Parse Glob ParseInt a st fx (config_tokens bytes) doGlob"
    using g by (simp add: Parse_def)
  with assms(1) have "ParseConfig Glob ParseInt a st fx filename =
        Parse Glob ParseInt a st fx (config_tokens bytes) doGlob"
    by (simp add: ParseConfig_def)
  with 1 have 2: "ParseConfig Glob ParseInt a st fx filename =
        Parse Glob ParseInt a st fx ?toks doGlob"
    by simp
  then have 3: "ParseConfig Glob ParseInt a st fx filename =
        ParseArgs Glob ParseInt a doGlob st fx (prog # ?toks)"
    by (simp add: ParseArgs_def)
  have 4: "(\<forall>l1 \<in> set (before @ after). line_tokens l1 = []) \<longrightarrow>
            config_tokens bytes = [?tok] \<and>
            ParseConfig Glob ParseInt a st fx filename =
              Parse Glob ParseInt a st fx [?tok] doGlob \<and>
            ParseConfig Glob ParseInt a st fx filename =
              ParseArgs Glob ParseInt a doGlob st fx [prog, ?tok]"
  proof
    assume b: "\<forall>l1 \<in> set (before @ after). line_tokens l1 = []"
    from b have cb: "concat (map line_tokens before) = []"
      by (intro concat_blank) simp
    from b have ca: "concat (map line_tokens after) = []"
      by (intro concat_blank) simp
    have e: "?toks = [?tok]" by (simp add: cb ca)
    from 1 2 3 show "config_tokens bytes = [?tok] \<and>
            ParseConfig Glob ParseInt a st fx filename =
              Parse Glob ParseInt a st fx [?tok] doGlob \<and>
            ParseConfig Glob ParseInt a st fx filename =
              ParseArgs Glob ParseInt a doGlob st fx [prog, ?tok]"
      unfolding e by simp
  qed
  from 1 2 3 4 show ?thesis by (intro conjI)
qed

text \<open>
  An instance: a comment line with a carriage return, then the line \<^verbatim>\<open>x=a b\<close> and a
  line feed.
\<close>

theorem C7_config_line_as_flag_witness:
  "files (start\<lparr>files := [''cfg'' \<mapsto> ''# settings'' @ [CHR 0x0D, CHR 0x0A] @ ''x=a b'' @ [CHR 0x0A]]\<rparr>)
     ''cfg'' = Some (''# settings'' @ [CHR 0x0D, CHR 0x0A] @ ''x=a b'' @ [CHR 0x0A]) \<and>
   Split (ReplaceCRLF (''# settings'' @ [CHR 0x0D, CHR 0x0A] @ ''x=a b'' @ [CHR 0x0A])) (CHR 0x0A) =
     [''# settings''] @ [''x=a b''] @ [[]] \<and>
   TrimSpace (takeWhile (\<lambda>c. c \<noteq> CHR ''#'') ''x=a b'') = ''x'' @ ''='' @ ''a b'' \<and>
   list_all (\<lambda>t. \<not> wildcard t)
     (config_tokens (''# settings'' @ [CHR 0x0D, CHR 0x0A] @ ''x=a b'' @ [CHR 0x0A])) \<and>
   line_tokens ''# settings'' = [] \<and> line_tokens [] = [] \<and>
   config_tokens (''# settings'' @ [CHR 0x0D, CHR 0x0A] @ ''x=a b'' @ [CHR 0x0A]) = [''-x=a b''] \<and>
   ParseConfig (\<lambda>st. go_files) (decimal Int64) Int64
       (start\<lparr>files := [''cfg'' \<mapsto> ''# settings'' @ [CHR 0x0D, CHR 0x0A] @ ''x=a b'' @ [CHR 0x0A]]\<rparr>)
       x_flag ''cfg'' =
     ParseArgs (\<lambda>st. go_files) (decimal Int64) Int64 False
       (start\<lparr>files := [''cfg'' \<mapsto> ''# settings'' @ [CHR 0x0D, CHR 0x0A] @ ''x=a b'' @ [CHR 0x0A]]\<rparr>)
       x_flag [''prog'', ''-x=a b''] \<and>
   bound (ParseArgs (\<lambda>st. go_files) (decimal Int64) Int64 False
       (start\<lparr>files := [''cfg'' \<mapsto> ''# settings'' @ [CHR 0x0D, CHR 0x0A] @ ''x=a b'' @ [CHR 0x0A]]\<rparr>)
       x_flag [''prog'', ''-x=a b'']) = Some [(''x'', StringV ''a b'')]"
proof -
  let ?bytes = "''# settings'' @ [CHR 0x0D, CHR 0x0A] @ ''x=a b'' @ [CHR 0x0A]"
  let ?st = "start\<lparr>files := [''cfg'' \<mapsto> ?bytes]\<rparr>"
  note ev = TrimSpace_def TrimLeft_def TrimRight_def asciiSpace_def space2_def space3_def
  have f: "files ?st ''cfg'' = Some ?bytes" by simp
  have l: "Split (ReplaceCRLF ?bytes) (CHR 0x0A) = [''# settings''] @ [''x=a b''] @ [[]]"
    by simp
  have t: "TrimSpace (takeWhile (\<lambda>c. c \<noteq> CHR ''#'') ''x=a b'') = ''x'' @ ''='' @ ''a b''"
    by (simp add: ev)
  have ct: "config_tokens ?bytes = [''-x=a b'']"
    by (simp add: config_tokens_def Contains_def ev)
  have w: "\<forall>t \<in> set (config_tokens ?bytes). \<not> wildcard t"
    unfolding ct by (simp add: wildcard_def)
  then have w2: "list_all (\<lambda>t. \<not> wildcard t) (config_tokens ?bytes)"
    by (simp add: list_all_iff)
  have b: "line_tokens ''# settings'' = []" "line_tokens [] = []"
    by (simp_all add: line_tokens_def ev)
  then have b2: "\<forall>l1 \<in> set ([''# settings''] @ [[]]). line_tokens l1 = []" by simp
  note c = C7_config_line_as_flag [where Glob = "\<lambda>st. go_files" and ParseInt = "decimal Int64"
      and a = Int64 and fx = x_flag and doGlob = False and prog = "''prog''", OF f l t w]
  note c4 = c [THEN conjunct2, THEN conjunct2, THEN conjunct2, THEN mp, OF b2]
  note c5 = c4 [THEN conjunct2, THEN conjunct2]
  from c5 have e: "ParseConfig (\<lambda>st. go_files) (decimal Int64) Int64 ?st x_flag ''cfg'' =
     ParseArgs (\<lambda>st. go_files) (decimal Int64) Int64 False ?st x_flag [''prog'', ''-x=a b'']"
    by simp
  have bd: "bound (ParseArgs (\<lambda>st. go_files) (decimal Int64) Int64 False ?st x_flag
      [''prog'', ''-x=a b'']) = Some [(''x'', StringV ''a b'')]"
    by (simp add: bound_def ParseArgs_def Parse_def x_flag_def scanArg_def flag_Set_def
        Value_Set_def visit_def Let_def)
  from f l t w2 b ct e bd show ?thesis by (intro conjI)
qed










end
